theory Spec2Isabelle
  imports Main
begin

section \<open>JavaScript values\<close>

text \<open>
  The values \<^verbatim>\<open>strategy.js\<close> handles: what \<^verbatim>\<open>JSON.parse\<close> returns, the option
  objects the application passes in, and the exceptions that are thrown and handed to
  continuations.

  \<^item> An object is the list of its own properties in insertion order; a read takes the
    first entry of a key.
  \<^item> A number is represented by the string \<^verbatim>\<open>Number.prototype.toString\<close> gives it
    (\<^verbatim>\<open>0\<close> and \<^verbatim>\<open>-0\<close> both print as \<^verbatim>\<open>0\<close>). The program never computes with a
    number: it tests values for truthiness and converts them to strings, and both are
    functions of that string.
  \<^item> \<open>Error name message\<close> is an exception object such as the \<^verbatim>\<open>TypeError\<close> of a
    property read on \<^verbatim>\<open>undefined\<close>.
\<close>

datatype jsval =
    Undefined
  | Null
  | Bool bool
  | Num string
  | Str string
  | Arr "jsval list"
  | Obj "(string \<times> jsval) list"
  | Error string string

definition nullish :: "jsval \<Rightarrow> bool" where
  "nullish v = (v = Undefined \<or> v = Null)"

text \<open>\<^verbatim>\<open>ToBoolean\<close>: what \<^verbatim>\<open>if (v)\<close>, \<^verbatim>\<open>!v\<close> and \<^verbatim>\<open>v || w\<close> test.\<close>

fun truthy :: "jsval \<Rightarrow> bool" where
  "truthy Undefined = False"
| "truthy Null = False"
| "truthy (Bool b) = b"
| "truthy (Num n) = (n \<noteq> ''0'' \<and> n \<noteq> ''NaN'')"
| "truthy (Str s) = (s \<noteq> [])"
| "truthy (Arr xs) = True"
| "truthy (Obj kvs) = True"
| "truthy (Error n m) = True"

text \<open>\<^verbatim>\<open>a || b\<close>\<close>

definition js_or :: "jsval \<Rightarrow> jsval \<Rightarrow> jsval" where
  "js_or a b = (if truthy a then a else b)"

text \<open>\<^verbatim>\<open>Array.prototype.join\<close> on the strings of the elements.\<close>

fun join :: "string \<Rightarrow> string list \<Rightarrow> string" where
  "join sep [] = []"
| "join sep [x] = x"
| "join sep (x # y # ys) = x @ sep @ join sep (y # ys)"

text \<open>
  \<^verbatim>\<open>ToString\<close>, as a template literal and \<^verbatim>\<open>join\<close> apply it. An array prints its
  elements joined by commas, \<^verbatim>\<open>null\<close> and \<^verbatim>\<open>undefined\<close> elements as the empty
  string; a plain object prints as \<^verbatim>\<open>[object Object]\<close>; an error as
  \<^verbatim>\<open>Error.prototype.toString\<close> does.
\<close>

fun to_string :: "jsval \<Rightarrow> string" where
  "to_string Undefined = ''undefined''"
| "to_string Null = ''null''"
| "to_string (Bool b) = (if b then ''true'' else ''false'')"
| "to_string (Num n) = n"
| "to_string (Str s) = s"
| "to_string (Arr xs) =
     join '','' (map (\<lambda>x. if x = Undefined \<or> x = Null then [] else to_string x) xs)"
| "to_string (Obj kvs) = ''[object Object]''"
| "to_string (Error n m) =
     (if n = [] then m else if m = [] then n else n @ '': '' @ m)"

text \<open>\<^verbatim>\<open>xs.join(sep)\<close> on an array value.\<close>

definition array_join :: "jsval list \<Rightarrow> string \<Rightarrow> string" where
  "array_join xs sep = join sep (map (\<lambda>x. if nullish x then [] else to_string x) xs)"

text \<open>
  The \<^verbatim>\<open>TypeError\<close> of reading property \<open>k\<close> of \<^verbatim>\<open>undefined\<close> or \<^verbatim>\<open>null\<close>
  (the message as V8 words it; nothing below depends on the wording).
\<close>

definition cannot_read :: "jsval \<Rightarrow> string \<Rightarrow> jsval" where
  "cannot_read v k =
     Error ''TypeError''
       (''Cannot read properties of '' @ to_string v @
        '' (reading '' @ [CHR 0x27] @ k @ [CHR 0x27] @ '')'')"

text \<open>The own property \<open>k\<close> of an object, \<^verbatim>\<open>undefined\<close> when it has none.\<close>

definition lookup :: "(string \<times> jsval) list \<Rightarrow> string \<Rightarrow> jsval" where
  "lookup kvs k = (case map_of kvs k of None \<Rightarrow> Undefined | Some v \<Rightarrow> v)"

text \<open>
  A property read \<^verbatim>\<open>v.k\<close>: it throws on \<^verbatim>\<open>undefined\<close> and \<^verbatim>\<open>null\<close>
  (\<open>Inl\<close> the exception) and gives the own property of an object. The names this
  program reads (\<^verbatim>\<open>ok\<close>, \<^verbatim>\<open>error\<close>, \<^verbatim>\<open>user\<close>, \<^verbatim>\<open>id\<close>, \<^verbatim>\<open>real_name\<close>,
  \<^verbatim>\<open>profile\<close>, \<^verbatim>\<open>email\<close>, \<^verbatim>\<open>authed_user\<close>, \<^verbatim>\<open>access_token\<close>, \<^verbatim>\<open>team\<close>) are
  no built-in property of a string, a number, a boolean or an array, so such a read
  gives \<^verbatim>\<open>undefined\<close> there.
\<close>

fun get_prop :: "jsval \<Rightarrow> string \<Rightarrow> jsval + jsval" where
  "get_prop Undefined k = Inl (cannot_read Undefined k)"
| "get_prop Null k = Inl (cannot_read Null k)"
| "get_prop (Obj kvs) k = Inr (lookup kvs k)"
| "get_prop (Error n m) k =
     Inr (if k = ''name'' then Str n else if k = ''message'' then Str m else Undefined)"
| "get_prop v k = Inr Undefined"

text \<open>
  A property write \<^verbatim>\<open>v.k = x\<close> on an object: an existing property keeps its place, a
  new one goes last.
\<close>

fun put :: "(string \<times> jsval) list \<Rightarrow> string \<Rightarrow> jsval \<Rightarrow> (string \<times> jsval) list" where
  "put [] k x = [(k, x)]"
| "put ((k', v) # kvs) k x = (if k' = k then (k, x) # kvs else (k', v) # put kvs k x)"

text \<open>
  The same on a value that a read has already shown to be neither \<^verbatim>\<open>undefined\<close> nor
  \<^verbatim>\<open>null\<close>, which is where the program writes. The module is not in strict mode, so a
  write to a property of a primitive is ignored without an exception.
\<close>

fun set_prop :: "jsval \<Rightarrow> string \<Rightarrow> jsval \<Rightarrow> jsval" where
  "set_prop (Obj kvs) k x = Obj (put kvs k x)"
| "set_prop v k x = v"

text \<open>The \<open>i\<close>-th argument of a call: \<^verbatim>\<open>undefined\<close> when the caller passed fewer.\<close>

definition arg :: "jsval list \<Rightarrow> nat \<Rightarrow> jsval" where
  "arg args i = (if i < length args then args ! i else Undefined)"

text \<open>
  The value of a property path \<^verbatim>\<open>v.k1.k2...\<close>, or the exception of its first read
  that throws.
\<close>

fun path :: "jsval \<Rightarrow> string list \<Rightarrow> jsval + jsval" where
  "path v [] = Inr v"
| "path v (k # ks) = (case get_prop v k of Inl e \<Rightarrow> Inl e | Inr w \<Rightarrow> path w ks)"

section \<open>The strategy instance and its continuations\<close>

text \<open>
  The fields \<^verbatim>\<open>strategy.js\<close> keeps on \<^verbatim>\<open>this\<close>: \<^verbatim>\<open>_team\<close>, \<^verbatim>\<open>_user_scope\<close>,
  \<^verbatim>\<open>name\<close> and \<^verbatim>\<open>params\<close> (the raw response of the last token exchange,
  \<^verbatim>\<open>undefined\<close> before the first), and the options object the constructor hands to
  the base constructor \<^verbatim>\<open>OAuth2Strategy\<close>, which keeps the flow's configuration
  (\<^verbatim>\<open>scope\<close> among it). The record is extensible: whatever else the application can
  reach (the base class's fields, its own state) is the extension.
\<close>

record strategy =
  self_team :: jsval
  self_user_scope :: jsval
  self_name :: jsval
  self_params :: jsval
  oauth2_options :: jsval

text \<open>
  A continuation (\<^verbatim>\<open>callback\<close>, \<^verbatim>\<open>done\<close>) is called with a list of arguments in the
  state of its moment; it returns the state it leaves and the exception it throws, if
  any. Every operation below has a result of the same shape.
\<close>

type_synonym 'a outcome = "'a strategy_scheme \<times> jsval option"

type_synonym 'a cont = "jsval list \<Rightarrow> 'a strategy_scheme \<Rightarrow> 'a outcome"

section \<open>The constructor\<close>

text \<open>
  \<^verbatim>\<open>function Strategy(options, verify)\<close>. The options are an object or absent
  (\<open>None\<close>). \<^verbatim>\<open>OAuth2Strategy.call(this, options, verify)\<close> belongs to the
  \<^verbatim>\<open>passport-oauth\<close> package: it is the parameter \<open>OAuth2Strategy_call\<close>, which
  receives the options object as the constructor has completed it and either returns or
  throws (\<open>Some\<close> the exception, which ends the construction). The override of
  \<^verbatim>\<open>getOAuthAccessToken\<close> that the constructor installs is \<open>getOAuthAccessToken\<close>
  below.
\<close>

definition Strategy ::
  "(jsval \<Rightarrow> 'v \<Rightarrow> jsval option) \<Rightarrow> (string \<times> jsval) list option \<Rightarrow> 'v \<Rightarrow> jsval + strategy"
where
  "Strategy OAuth2Strategy_call options verify =
     (let options = (case options of None \<Rightarrow> [] | Some kvs \<Rightarrow> kvs);
          options = put options ''tokenURL''
            (js_or (lookup options ''tokenURL'') (Str ''https://slack.com/api/oauth.v2.access''));
          options = put options ''authorizationURL''
            (js_or (lookup options ''authorizationURL'')
               (Str ''https://slack.com/oauth/v2/authorize''))
      in case OAuth2Strategy_call (Obj options) verify of
           Some e \<Rightarrow> Inl e
         | None \<Rightarrow>
             Inr \<lparr> self_team = lookup options ''team'',
                   self_user_scope = lookup options ''user_scope'',
                   self_name = js_or (lookup options ''name'') (Str ''slack''),
                   self_params = Undefined,
                   oauth2_options = Obj options \<rparr>)"

section \<open>The token exchange\<close>

text \<open>
  The function the override passes to the original \<^verbatim>\<open>getOAuthAccessToken\<close>
  (\<^verbatim>\<open>function (err, accessToken, refreshToken, params)\<close>), run when the exchange
  completes. After \<^verbatim>\<open>self.params = params\<close> the read
  \<^verbatim>\<open>params.authed_user.access_token\<close> can throw; nothing catches that exception.
\<close>

definition exchange_callback :: "'a cont \<Rightarrow> 'a cont" where
  "exchange_callback callback args self =
     (let err = arg args 0; accessToken = arg args 1; refreshToken = arg args 2;
          params = arg args 3
      in if truthy err then callback [err] self
         else
           (let self = self\<lparr>self_params := params\<rparr> in
              (case get_prop params ''authed_user'' of
                 Inl e \<Rightarrow> (self, Some e)
               | Inr authed_user \<Rightarrow>
                   (case get_prop authed_user ''access_token'' of
                      Inl e \<Rightarrow> (self, Some e)
                    | Inr accessToken \<Rightarrow>
                        callback [Null, accessToken, refreshToken, params] self))))"

text \<open>
  The override: it delegates to the original method of the OAuth2 client (the parameter
  \<open>oauth2GetOAuthAccessToken\<close>) with the same \<open>code\<close> and \<open>params\<close>.
\<close>

definition getOAuthAccessToken ::
  "(jsval \<Rightarrow> jsval \<Rightarrow> 'a cont \<Rightarrow> 'a strategy_scheme \<Rightarrow> 'a outcome) \<Rightarrow>
   jsval \<Rightarrow> jsval \<Rightarrow> 'a cont \<Rightarrow> 'a strategy_scheme \<Rightarrow> 'a outcome"
where
  "getOAuthAccessToken oauth2GetOAuthAccessToken code params callback =
     oauth2GetOAuthAccessToken code params (exchange_callback callback)"

section \<open>The profile fetch\<close>

text \<open>
  \<^verbatim>\<open>Strategy.prototype.get\<close>: the request goes to \<^verbatim>\<open>this._oauth2._request\<close> (the
  parameter \<open>oauth2_request\<close>: method, URL, headers, body, access token, callback) with
  no header, and the empty string for the body and for the access token.
\<close>

type_synonym 'a request =
  "string \<Rightarrow> string \<Rightarrow> jsval \<Rightarrow> string \<Rightarrow> string \<Rightarrow> 'a cont \<Rightarrow> 'a strategy_scheme \<Rightarrow> 'a outcome"

definition get :: "'a request \<Rightarrow> string \<Rightarrow> 'a cont \<Rightarrow> 'a strategy_scheme \<Rightarrow> 'a outcome" where
  "get oauth2_request url callback = oauth2_request ''GET'' url (Obj []) [] [] callback"

text \<open>
  The template literal of \<^verbatim>\<open>userProfile\<close>, on \<^verbatim>\<open>this.params\<close>: its reads run from
  left to right and the values are converted to strings as they are, with no escaping.
\<close>

definition profileUrl :: "jsval \<Rightarrow> jsval + string" where
  "profileUrl params =
     (case get_prop params ''authed_user'' of
        Inl e \<Rightarrow> Inl e
      | Inr authed_user \<Rightarrow>
          (case get_prop authed_user ''id'' of
             Inl e \<Rightarrow> Inl e
           | Inr uid \<Rightarrow>
               (case get_prop params ''access_token'' of
                  Inl e \<Rightarrow> Inl e
                | Inr access_token \<Rightarrow>
                    Inr (''https://slack.com/api/users.info?user='' @ to_string uid @
                         ''&token='' @ to_string access_token))))"

text \<open>
  The \<^verbatim>\<open>try\<close> block of the callback up to its call of \<^verbatim>\<open>done\<close>, on the parsed
  body: the arguments \<^verbatim>\<open>done\<close> is called with, or the exception a property read
  throws before. In the branch of a truthy \<^verbatim>\<open>ok\<close> each statement reads
  \<^verbatim>\<open>profile.user\<close> again, from the object as the statements before have left it.
\<close>

definition done_args :: "jsval \<Rightarrow> jsval + jsval list" where
  "done_args profile =
     (case get_prop profile ''ok'' of
        Inl e \<Rightarrow> Inl e
      | Inr ok \<Rightarrow>
          (if \<not> truthy ok then
             (case get_prop profile ''error'' of
                Inl e \<Rightarrow> Inl e
              | Inr error \<Rightarrow> (if truthy error then Inr [error] else Inr [Null, profile]))
           else
             (let profile = set_prop profile ''provider'' (Str ''Slack'') in
                (case path profile [''user'', ''id''] of
                   Inl e \<Rightarrow> Inl e
                 | Inr uid \<Rightarrow>
                     (let profile = set_prop profile ''id'' uid in
                        (case path profile [''user'', ''real_name''] of
                           Inl e \<Rightarrow> Inl e
                         | Inr real_name \<Rightarrow>
                             (let profile = set_prop profile ''displayName'' real_name in
                                (case path profile [''user'', ''profile'', ''email''] of
                                   Inl e \<Rightarrow> Inl e
                                 | Inr email \<Rightarrow>
                                     Inr [Null, set_prop profile ''email'' email]))))))))"

text \<open>
  A call of \<^verbatim>\<open>done\<close> inside the \<^verbatim>\<open>try\<close> block: when \<^verbatim>\<open>done\<close> itself throws, the
  \<^verbatim>\<open>catch\<close> clause calls it again with the exception.
\<close>

definition try_done :: "'a cont \<Rightarrow> 'a cont" where
  "try_done done args self =
     (case done args self of
        (self', Some e) \<Rightarrow> done [e] self'
      | (self', None) \<Rightarrow> (self', None))"

text \<open>
  The callback of the request, \<^verbatim>\<open>function(err, body, res)\<close>. \<^verbatim>\<open>JSON.parse\<close> is the
  parameter \<open>json_parse\<close>, from the text of the body to the parsed value or the exception
  it throws.
\<close>

definition profile_callback :: "(string \<Rightarrow> jsval + jsval) \<Rightarrow> 'a cont \<Rightarrow> 'a cont" where
  "profile_callback json_parse done args self =
     (let err = arg args 0; body = arg args 1 in
      if truthy err then done [err] self
      else
        (case json_parse (to_string body) of
           Inl e \<Rightarrow> done [e] self
         | Inr profile \<Rightarrow>
             (case done_args profile of
                Inl e \<Rightarrow> done [e] self
              | Inr dargs \<Rightarrow> try_done done dargs self)))"

text \<open>
  \<^verbatim>\<open>Strategy.prototype.userProfile\<close>. An exception of the template literal leaves the
  function before any request.
\<close>

definition userProfile ::
  "'a request \<Rightarrow> (string \<Rightarrow> jsval + jsval) \<Rightarrow> jsval \<Rightarrow> 'a cont \<Rightarrow> 'a strategy_scheme \<Rightarrow> 'a outcome"
where
  "userProfile oauth2_request json_parse accessToken done self =
     (case profileUrl (self_params self) of
        Inl e \<Rightarrow> (self, Some e)
      | Inr url \<Rightarrow> get oauth2_request url (profile_callback json_parse done) self)"

section \<open>The extra parameters of the authorization request\<close>

text \<open>\<^verbatim>\<open>Strategy.prototype.authorizationParams\<close>; it reads and returns, and writes nothing.\<close>

definition authorizationParams :: "'a strategy_scheme \<Rightarrow> jsval \<Rightarrow> jsval + jsval" where
  "authorizationParams self options =
     (case get_prop options ''team'' of
        Inl e \<Rightarrow> Inl e
      | Inr options_team \<Rightarrow>
          let params = [];
              team = js_or options_team (self_team self);
              params = (if truthy team then put params ''team'' team else params);
              user_scope = self_user_scope self;
              params =
                (if truthy user_scope then
                   put params ''user_scope''
                     (case user_scope of
                        Arr xs \<Rightarrow> Str (array_join xs '' '')
                      | _ \<Rightarrow> user_scope)
                 else params)
          in Inr (Obj params))"

section \<open>The specification's wording of a joined scope\<close>

text \<open>
  An ordered sequence of words as one string, a single space between neighbours: the
  first word, then each further word after a space.
\<close>

definition spaced :: "string list \<Rightarrow> string" where
  "spaced ws = (case ws of [] \<Rightarrow> [] | w # rest \<Rightarrow> w @ concat (map (\<lambda>v. '' '' @ v) rest))"

section \<open>An application around the strategy, for the examples\<close>

text \<open>
  An instance together with what an application observes of it: the URLs requested and
  the argument lists its continuations were called with, both in order.
\<close>

record world = strategy +
  requests :: "string list"
  delivered :: "jsval list list"

definition world0 :: world where
  "world0 = \<lparr> self_team = Undefined, self_user_scope = Undefined, self_name = Str ''slack'',
      self_params = Undefined, oauth2_options = Obj [], requests = [], delivered = [] \<rparr>"

text \<open>A continuation that notes its arguments and returns.\<close>

definition record_call :: "unit world_ext cont" where
  "record_call args w = (w\<lparr>delivered := delivered w @ [args]\<rparr>, None)"

text \<open>A transport that notes the URL and answers with the given \<^verbatim>\<open>(err, body, res)\<close>.\<close>

definition reply_with :: "jsval list \<Rightarrow> unit world_ext request" where
  "reply_with reply method url headers post_body token callback w =
     callback reply (w\<lparr>requests := requests w @ [url]\<rparr>)"

text \<open>
  An exchange of the OAuth2 client that completes with the given
  \<^verbatim>\<open>(err, accessToken, refreshToken, params)\<close>.
\<close>

definition exchange_completes ::
  "jsval list \<Rightarrow> jsval \<Rightarrow> jsval \<Rightarrow> unit world_ext cont \<Rightarrow> world \<Rightarrow> unit world_ext outcome"
where
  "exchange_completes result code params callback w = callback result w"

text \<open>A base constructor that accepts the options it is given.\<close>

definition accepts :: "jsval \<Rightarrow> unit \<Rightarrow> jsval option" where
  "accepts options verify = None"

text \<open>
  \<^verbatim>\<open>JSON.parse\<close> on the bodies of the examples: six JSON texts with their values, and
  \<^verbatim>\<open><html>\<close>, which is no JSON text. No example uses another body.
\<close>

definition parse_examples :: "string \<Rightarrow> jsval + jsval" where
  \<open>parse_examples body =
     (if body = ''{"ok":true,"user":{"id":"U1","real_name":"Ada","profile":{"email":"a@x.com"}}}''
      then Inr (Obj [(''ok'', Bool True),
                     (''user'', Obj [(''id'', Str ''U1''), (''real_name'', Str ''Ada''),
                                     (''profile'', Obj [(''email'', Str ''a@x.com'')])])])
      else if body = ''{"ok":true,"user":{"id":"U1","real_name":"Ada"}}''
      then Inr (Obj [(''ok'', Bool True),
                     (''user'', Obj [(''id'', Str ''U1''), (''real_name'', Str ''Ada'')])])
      else if body = ''{"ok":false,"error":"user_not_found"}''
      then Inr (Obj [(''ok'', Bool False), (''error'', Str ''user_not_found'')])
      else if body = ''{"ok":false,"error":""}''
      then Inr (Obj [(''ok'', Bool False), (''error'', Str [])])
      else if body = ''{"ok":false}''
      then Inr (Obj [(''ok'', Bool False)])
      else if body = ''null''
      then Inr Null
      else Inl (Error ''SyntaxError'' ''Unexpected token < in JSON at position 0''))\<close>

text \<open>The raw exchange responses of two login attempts.\<close>

definition response1 :: jsval where
  "response1 = Obj [(''access_token'', Str ''bot-1''),
                    (''authed_user'', Obj [(''id'', Str ''U1''), (''access_token'', Str ''user-1'')])]"

definition response2 :: jsval where
  "response2 = Obj [(''access_token'', Str ''bot-2''),
                    (''authed_user'', Obj [(''id'', Str ''U2''), (''access_token'', Str ''user-2'')])]"

text \<open>
  The instance after the exchange of the first attempt, and the URL of the profile
  request that follows.
\<close>

definition world1 :: world where
  "world1 = world0\<lparr>self_params := response1\<rparr>"

definition url1 :: string where
  "url1 = ''https://slack.com/api/users.info?user=U1&token=bot-1''"


section \<open>Reads and writes of properties\<close>

lemma lookup_put: "lookup (put kvs k x) k' = (if k' = k then x else lookup kvs k')"
  by (induction kvs) (auto simp: lookup_def)

lemma join_spaced: "join '' '' ws = spaced ws"
  by (induction "'' ''" ws rule: join.induct) (simp_all add: spaced_def)

text \<open>Only an object has a truthy property of a name other than an error's own two.\<close>

lemma truthy_prop_object:
  assumes "get_prop v k = Inr x" and "truthy x" and "k \<noteq> ''name''" and "k \<noteq> ''message''"
  obtains kvs where "v = Obj kvs"
  using assms by (cases v) (auto split: if_splits)

section \<open>The token exchange delivers the user's token\<close>

lemma exchange_callback_success:
  assumes "\<not> truthy err"
  shows "exchange_callback callback [err, accessToken, refreshToken, response] self =
    (case path response [''authed_user'', ''access_token''] of
       Inr user_token \<Rightarrow>
         callback [Null, user_token, refreshToken, response] (self\<lparr>self_params := response\<rparr>)
     | Inl e \<Rightarrow> (self\<lparr>self_params := response\<rparr>, Some e))"
  using assms by (simp add: exchange_callback_def arg_def split: sum.splits)

text \<open>
  C1. Let the exchange of the OAuth2 client complete without an error: it calls the
  function it was given with \<^verbatim>\<open>(err, accessToken, refreshToken, response)\<close>, \<open>err\<close> not
  truthy, in whatever state \<open>between self\<close> the instance has by then. Then the override
  calls the continuation with \<^verbatim>\<open>null\<close>, the value of
  \<^verbatim>\<open>response.authed_user.access_token\<close> (whatever the top-level token \<open>accessToken\<close>
  was), the refresh token as it came and the response itself, and it calls it in a state
  in which the response is already stored. When the response has no
  \<^verbatim>\<open>authed_user\<close> to read the token from, the read throws after the response is
  stored, and the continuation is not called at all.
\<close>

theorem exchange_delivers_user_token:
  assumes "\<And>k s. exchange code params k s =
             k [err, accessToken, refreshToken, response] (between s)"
    and "\<not> truthy err"
  shows "getOAuthAccessToken exchange code params callback self =
    (case path response [''authed_user'', ''access_token''] of
       Inr user_token \<Rightarrow>
         callback [Null, user_token, refreshToken, response]
           ((between self)\<lparr>self_params := response\<rparr>)
     | Inl e \<Rightarrow> ((between self)\<lparr>self_params := response\<rparr>, Some e))"
  unfolding getOAuthAccessToken_def assms(1)
  by (rule exchange_callback_success) (rule assms(2))

theorem exchange_delivers_user_token_witness:
  "\<not> truthy Null \<and>
   getOAuthAccessToken (exchange_completes [Null, Str ''bot-1'', Str ''refresh-1'', response1])
       (Str ''code-1'') (Obj []) record_call world0 =
     (world0\<lparr>self_params := response1,
        delivered := [[Null, Str ''user-1'', Str ''refresh-1'', response1]]\<rparr>, None)"
  using exchange_delivers_user_token
    [of "exchange_completes [Null, Str ''bot-1'', Str ''refresh-1'', response1]"
      "Str ''code-1''" "Obj []" Null "Str ''bot-1''" "Str ''refresh-1''" response1 "\<lambda>s. s"
      record_call world0]
  by (simp add: exchange_completes_def response1_def record_call_def world0_def lookup_def)

section \<open>The profile request\<close>

text \<open>
  C10. \<^verbatim>\<open>userProfile\<close> never reads its \<^verbatim>\<open>accessToken\<close> argument: with the same
  transport, the same stored response and the same continuation, two calls that differ
  in that argument only issue the same request and end in the same outcome.
\<close>

theorem userProfile_ignores_accessToken:
  "userProfile oauth2_request json_parse accessToken done self =
   userProfile oauth2_request json_parse accessToken' done self"
  by (simp add: userProfile_def)

text \<open>
  C2. When the stored response has an \<^verbatim>\<open>authed_user\<close> to read an \<^verbatim>\<open>id\<close> from,
  \<^verbatim>\<open>userProfile\<close> issues one \<^verbatim>\<open>GET\<close> request, with no header and no access token
  beside the URL, to \<^verbatim>\<open>https://slack.com/api/users.info\<close> with the query
  \<^verbatim>\<open>user=\<close> the stored \<^verbatim>\<open>authed_user.id\<close> and \<^verbatim>\<open>token=\<close> the stored top-level
  \<^verbatim>\<open>access_token\<close> (not \<^verbatim>\<open>authed_user.access_token\<close>), both as their strings are.
\<close>

theorem userProfile_request:
  assumes "path (self_params self) [''authed_user'', ''id''] = Inr uid"
    and "get_prop (self_params self) ''access_token'' = Inr token"
  shows "userProfile oauth2_request json_parse accessToken done self =
     oauth2_request ''GET''
       (''https://slack.com/api/users.info?user='' @ to_string uid @
        ''&token='' @ to_string token)
       (Obj []) [] [] (profile_callback json_parse done) self"
  using assms by (auto simp: userProfile_def profileUrl_def get_def split: sum.splits)

theorem userProfile_request_witness:
  \<open>path (self_params (world0\<lparr>self_params := response1\<rparr>)) [''authed_user'', ''id''] =
     Inr (Str ''U1'') \<and>
   get_prop (self_params (world0\<lparr>self_params := response1\<rparr>)) ''access_token'' =
     Inr (Str ''bot-1'') \<and>
   userProfile (reply_with [Null, Str ''{"ok":false}'', Undefined]) parse_examples
       (Str ''user-1'') record_call (world0\<lparr>self_params := response1\<rparr>) =
     reply_with [Null, Str ''{"ok":false}'', Undefined] ''GET''
       ''https://slack.com/api/users.info?user=U1&token=bot-1'' (Obj []) [] []
       (profile_callback parse_examples record_call) (world0\<lparr>self_params := response1\<rparr>)\<close>
proof -
  have a: "path (self_params (world0\<lparr>self_params := response1\<rparr>)) [''authed_user'', ''id''] =
      Inr (Str ''U1'')"
    by (simp add: response1_def lookup_def)
  have b: "get_prop (self_params (world0\<lparr>self_params := response1\<rparr>)) ''access_token'' =
      Inr (Str ''bot-1'')"
    by (simp add: response1_def lookup_def)
  from userProfile_request [OF a b] a b show ?thesis by simp
qed

section \<open>The answer to the profile request\<close>

lemma profile_callback_parsed:
  assumes "\<not> truthy err" and "json_parse (to_string body) = Inr payload"
  shows "profile_callback json_parse done [err, body, res] self =
     (case done_args payload of
        Inl e \<Rightarrow> done [e] self
      | Inr dargs \<Rightarrow> try_done done dargs self)"
  using assms by (simp add: profile_callback_def arg_def)

lemma try_done_returns:
  "done args self = (self', None) \<Longrightarrow> try_done done args self = (self', None)"
  by (simp add: try_done_def)

text \<open>
  The statements of this section and the next are about a call of \<^verbatim>\<open>userProfile\<close> as
  a whole. Two assumptions set the scene: the stored response gives the profile URL
  \<open>url\<close> (it has an \<^verbatim>\<open>authed_user\<close> to read the \<^verbatim>\<open>id\<close> from), and the transport
  answers the \<^verbatim>\<open>GET\<close> request for that URL by calling the function it was given with
  \<^verbatim>\<open>(err, body, res)\<close>, in whatever state \<open>between self\<close> the instance has by then.
  Under them the call is the callback on that answer.
\<close>

lemma userProfile_answered:
  assumes "profileUrl (self_params self) = Inr url"
    and "\<And>k s. oauth2_request ''GET'' url (Obj []) [] [] k s = k [err, body, res] (between s)"
  shows "userProfile oauth2_request json_parse accessToken done self =
     profile_callback json_parse done [err, body, res] (between self)"
  by (simp add: userProfile_def get_def assms)

lemma profileUrl_world1: "profileUrl (self_params world1) = Inr url1"
  by (simp add: world1_def world0_def response1_def profileUrl_def lookup_def url1_def)

lemma reply_with_answers:
  "reply_with reply ''GET'' url (Obj []) [] [] k s = k reply (s\<lparr>requests := requests s @ [url]\<rparr>)"
  by (simp add: reply_with_def)

text \<open>
  C6. When the transport reports no error and \<^verbatim>\<open>JSON.parse\<close> throws on the body,
  \<^verbatim>\<open>userProfile\<close> calls the continuation once, with the thrown exception as its only
  argument: a failure, and no profile.
\<close>

theorem parse_failure_delivered:
  assumes "profileUrl (self_params self) = Inr url"
    and "\<And>k s. oauth2_request ''GET'' url (Obj []) [] [] k s = k [err, body, res] (between s)"
    and "\<not> truthy err" and "json_parse (to_string body) = Inl e"
  shows "userProfile oauth2_request json_parse accessToken done self = done [e] (between self)"
  using assms(3,4)
  by (simp add: userProfile_answered [where oauth2_request = oauth2_request and between = between, OF assms(1,2)] profile_callback_def arg_def)

theorem parse_failure_delivered_witness:
  "profileUrl (self_params world1) = Inr url1 \<and>
   (\<forall>k s. reply_with [Null, Str ''<html>'', Undefined] ''GET'' url1 (Obj []) [] [] k s =
      k [Null, Str ''<html>'', Undefined] (s\<lparr>requests := requests s @ [url1]\<rparr>)) \<and>
   \<not> truthy Null \<and>
   parse_examples (to_string (Str ''<html>'')) =
     Inl (Error ''SyntaxError'' ''Unexpected token < in JSON at position 0'') \<and>
   userProfile (reply_with [Null, Str ''<html>'', Undefined]) parse_examples (Str ''user-1'')
       record_call world1 =
     (world1\<lparr>requests := [url1],
        delivered := [[Error ''SyntaxError'' ''Unexpected token < in JSON at position 0'']]\<rparr>,
      None)"
proof -
  have t: "\<And>k s. reply_with [Null, Str ''<html>'', Undefined] ''GET'' url1 (Obj []) [] [] k s =
      k [Null, Str ''<html>'', Undefined] (s\<lparr>requests := requests s @ [url1]\<rparr>)"
    by (rule reply_with_answers)
  have n: "\<not> truthy Null" by simp
  have p: "parse_examples (to_string (Str ''<html>'')) =
     Inl (Error ''SyntaxError'' ''Unexpected token < in JSON at position 0'')"
    by (simp add: parse_examples_def)
  from parse_failure_delivered
    [where self = world1 and url = url1
      and oauth2_request = "reply_with [Null, Str ''<html>'', Undefined]"
      and err = Null and body = "Str ''<html>''" and res = Undefined
      and between = "\<lambda>s. s\<lparr>requests := requests s @ [url1]\<rparr>"
      and json_parse = parse_examples
      and e = "Error ''SyntaxError'' ''Unexpected token < in JSON at position 0''"
      and accessToken = "Str ''user-1''",
      of record_call, OF profileUrl_world1 t n p]
    profileUrl_world1 t p
  show ?thesis by (simp add: record_call_def world1_def world0_def)
qed

text \<open>
  C3, as the code has it. When the body parses to a value other than \<^verbatim>\<open>null\<close> (so
  that its \<^verbatim>\<open>ok\<close> can be read), \<^verbatim>\<open>ok\<close> is not a true value and there is no
  \<^verbatim>\<open>error\<close> field (a missing field reads as \<^verbatim>\<open>undefined\<close>, which is not truthy),
  \<^verbatim>\<open>userProfile\<close> calls the continuation with \<^verbatim>\<open>null\<close> and the parsed value as it
  is. The call stands in the \<^verbatim>\<open>try\<close> block: a continuation that throws is called a
  second time, with its exception.
\<close>

theorem unacknowledged_without_error_passes:
  assumes "profileUrl (self_params self) = Inr url"
    and "\<And>k s. oauth2_request ''GET'' url (Obj []) [] [] k s = k [err, body, res] (between s)"
    and "\<not> truthy err" and "json_parse (to_string body) = Inr payload"
    and "get_prop payload ''ok'' = Inr ok" and "\<not> truthy ok"
    and "get_prop payload ''error'' = Inr er" and "\<not> truthy er"
  shows "userProfile oauth2_request json_parse accessToken done self =
     try_done done [Null, payload] (between self)"
  using assms(3-8)
  by (simp add: userProfile_answered [where oauth2_request = oauth2_request and between = between, OF assms(1,2)] profile_callback_parsed done_args_def)

theorem unacknowledged_without_error_passes_witness:
  \<open>profileUrl (self_params world1) = Inr url1 \<and>
   (\<forall>k s. reply_with [Null, Str ''{"ok":false}'', Undefined] ''GET'' url1 (Obj []) [] [] k s =
      k [Null, Str ''{"ok":false}'', Undefined] (s\<lparr>requests := requests s @ [url1]\<rparr>)) \<and>
   \<not> truthy Null \<and>
   parse_examples (to_string (Str ''{"ok":false}'')) = Inr (Obj [(''ok'', Bool False)]) \<and>
   get_prop (Obj [(''ok'', Bool False)]) ''ok'' = Inr (Bool False) \<and> \<not> truthy (Bool False) \<and>
   get_prop (Obj [(''ok'', Bool False)]) ''error'' = Inr Undefined \<and> \<not> truthy Undefined \<and>
   userProfile (reply_with [Null, Str ''{"ok":false}'', Undefined]) parse_examples
       (Str ''user-1'') record_call world1 =
     (world1\<lparr>requests := [url1], delivered := [[Null, Obj [(''ok'', Bool False)]]]\<rparr>, None)\<close>
proof -
  have t: \<open>\<And>k s. reply_with [Null, Str ''{"ok":false}'', Undefined] ''GET'' url1 (Obj []) [] [] k s =
      k [Null, Str ''{"ok":false}'', Undefined] (s\<lparr>requests := requests s @ [url1]\<rparr>)\<close>
    by (rule reply_with_answers)
  have p: \<open>parse_examples (to_string (Str ''{"ok":false}'')) = Inr (Obj [(''ok'', Bool False)])\<close>
    by (simp add: parse_examples_def)
  have ok: "get_prop (Obj [(''ok'', Bool False)]) ''ok'' = Inr (Bool False)"
    by (simp add: lookup_def)
  have er: "get_prop (Obj [(''ok'', Bool False)]) ''error'' = Inr Undefined"
    by (simp add: lookup_def)
  have n: "\<not> truthy Null" and f: "\<not> truthy (Bool False)" and u: "\<not> truthy Undefined"
    by simp_all
  from unacknowledged_without_error_passes
    [where self = world1 and url = url1
      and oauth2_request = \<open>reply_with [Null, Str ''{"ok":false}'', Undefined]\<close>
      and err = Null and body = \<open>Str ''{"ok":false}''\<close> and res = Undefined
      and between = "\<lambda>s. s\<lparr>requests := requests s @ [url1]\<rparr>"
      and json_parse = parse_examples and payload = "Obj [(''ok'', Bool False)]"
      and ok = "Bool False" and er = Undefined and accessToken = "Str ''user-1''",
      of record_call, OF profileUrl_world1 t n p ok f er u]
    profileUrl_world1 t p ok er
  show ?thesis by (simp add: try_done_def record_call_def world1_def world0_def)
qed

text \<open>
  C3 as stated fails on the body \<^verbatim>\<open>null\<close>: it parses, its value has no true \<^verbatim>\<open>ok\<close>
  and no \<^verbatim>\<open>error\<close> field, yet the read of \<^verbatim>\<open>ok\<close> throws and \<^verbatim>\<open>userProfile\<close> hands
  the continuation that \<^verbatim>\<open>TypeError\<close> as a failure, not \<^verbatim>\<open>(null, payload)\<close>.
\<close>

theorem null_payload_fails:
  \<open>parse_examples (to_string (Str ''null'')) = Inr Null \<and>
   userProfile (reply_with [Null, Str ''null'', Undefined]) parse_examples (Str ''user-1'')
       record_call world1 =
     (world1\<lparr>requests := [url1], delivered := [[cannot_read Null ''ok'']]\<rparr>, None) \<and>
   userProfile (reply_with [Null, Str ''null'', Undefined]) parse_examples (Str ''user-1'')
       record_call world1 \<noteq>
     try_done record_call [Null, Null] (world1\<lparr>requests := [url1]\<rparr>)\<close>
  by (simp add: userProfile_def get_def profileUrl_def reply_with_def parse_examples_def
      profile_callback_def arg_def done_args_def record_call_def world1_def world0_def
      response1_def url1_def try_done_def lookup_def)

text \<open>
  C5, as the code has it. When the body parses, \<^verbatim>\<open>ok\<close> is not truthy and \<^verbatim>\<open>error\<close>
  is truthy (a non-empty string, for one), \<^verbatim>\<open>userProfile\<close> calls the continuation with
  the value of \<^verbatim>\<open>error\<close> as its only argument: a failure, and no profile. A
  continuation that throws is called a second time, with its exception.
\<close>

theorem provider_error_delivered:
  assumes "profileUrl (self_params self) = Inr url"
    and "\<And>k s. oauth2_request ''GET'' url (Obj []) [] [] k s = k [err, body, res] (between s)"
    and "\<not> truthy err" and "json_parse (to_string body) = Inr payload"
    and "get_prop payload ''ok'' = Inr ok" and "\<not> truthy ok"
    and "get_prop payload ''error'' = Inr er" and "truthy er"
  shows "userProfile oauth2_request json_parse accessToken done self =
     try_done done [er] (between self)"
  using assms(3-8)
  by (simp add: userProfile_answered [where oauth2_request = oauth2_request and between = between, OF assms(1,2)] profile_callback_parsed done_args_def)

theorem provider_error_delivered_witness:
  \<open>profileUrl (self_params world1) = Inr url1 \<and>
   (\<forall>k s. reply_with [Null, Str ''{"ok":false,"error":"user_not_found"}'', Undefined] ''GET'' url1
        (Obj []) [] [] k s =
      k [Null, Str ''{"ok":false,"error":"user_not_found"}'', Undefined]
        (s\<lparr>requests := requests s @ [url1]\<rparr>)) \<and>
   \<not> truthy Null \<and>
   parse_examples (to_string (Str ''{"ok":false,"error":"user_not_found"}'')) =
     Inr (Obj [(''ok'', Bool False), (''error'', Str ''user_not_found'')]) \<and>
   get_prop (Obj [(''ok'', Bool False), (''error'', Str ''user_not_found'')]) ''ok'' =
     Inr (Bool False) \<and>
   \<not> truthy (Bool False) \<and>
   get_prop (Obj [(''ok'', Bool False), (''error'', Str ''user_not_found'')]) ''error'' =
     Inr (Str ''user_not_found'') \<and>
   truthy (Str ''user_not_found'') \<and>
   userProfile (reply_with [Null, Str ''{"ok":false,"error":"user_not_found"}'', Undefined])
       parse_examples (Str ''user-1'') record_call world1 =
     (world1\<lparr>requests := [url1], delivered := [[Str ''user_not_found'']]\<rparr>, None)\<close>
proof -
  let ?reply = \<open>[Null, Str ''{"ok":false,"error":"user_not_found"}'', Undefined]\<close>
  let ?payload = "Obj [(''ok'', Bool False), (''error'', Str ''user_not_found'')]"
  have t: "\<And>k s. reply_with ?reply ''GET'' url1 (Obj []) [] [] k s =
      k ?reply (s\<lparr>requests := requests s @ [url1]\<rparr>)"
    by (rule reply_with_answers)
  have p: \<open>parse_examples (to_string (Str ''{"ok":false,"error":"user_not_found"}'')) =
      Inr ?payload\<close>
    by (simp add: parse_examples_def)
  have ok: "get_prop ?payload ''ok'' = Inr (Bool False)"
    by (simp add: lookup_def)
  have er: "get_prop ?payload ''error'' = Inr (Str ''user_not_found'')"
    by (simp add: lookup_def)
  have n: "\<not> truthy Null" and f: "\<not> truthy (Bool False)"
    and s: "truthy (Str ''user_not_found'')"
    by simp_all
  from provider_error_delivered
    [where self = world1 and url = url1 and oauth2_request = "reply_with ?reply"
      and err = Null and body = \<open>Str ''{"ok":false,"error":"user_not_found"}''\<close>
      and res = Undefined and between = "\<lambda>s. s\<lparr>requests := requests s @ [url1]\<rparr>"
      and json_parse = parse_examples and payload = ?payload
      and ok = "Bool False" and er = "Str ''user_not_found''" and accessToken = "Str ''user-1''",
      of record_call, OF profileUrl_world1 t n p ok f er s]
    profileUrl_world1 t p ok er
  show ?thesis by (simp add: try_done_def record_call_def world1_def world0_def)
qed

text \<open>
  C5 as stated fails on an \<^verbatim>\<open>error\<close> field that is present and empty: the test
  \<^verbatim>\<open>if (profile.error)\<close> takes the empty string for no error, and \<^verbatim>\<open>userProfile\<close>
  hands the continuation \<^verbatim>\<open>(null, payload)\<close>, a success with the payload as the
  profile, not a failure carrying the field's value.
\<close>

theorem empty_error_passes:
  \<open>parse_examples (to_string (Str ''{"ok":false,"error":""}'')) =
     Inr (Obj [(''ok'', Bool False), (''error'', Str [])]) \<and>
   get_prop (Obj [(''ok'', Bool False), (''error'', Str [])]) ''error'' = Inr (Str []) \<and>
   userProfile (reply_with [Null, Str ''{"ok":false,"error":""}'', Undefined]) parse_examples
       (Str ''user-1'') record_call world1 =
     (world1\<lparr>requests := [url1],
        delivered := [[Null, Obj [(''ok'', Bool False), (''error'', Str [])]]]\<rparr>, None) \<and>
   userProfile (reply_with [Null, Str ''{"ok":false,"error":""}'', Undefined]) parse_examples
       (Str ''user-1'') record_call world1 \<noteq>
     try_done record_call [Str []] (world1\<lparr>requests := [url1]\<rparr>)\<close>
  by (simp add: userProfile_def get_def profileUrl_def reply_with_def parse_examples_def
      profile_callback_def arg_def done_args_def record_call_def world1_def world0_def
      response1_def url1_def try_done_def lookup_def)

section \<open>The normalized profile\<close>

lemma done_args_acknowledged:
  assumes ok: "get_prop payload ''ok'' = Inr ok" "truthy ok"
    and uid: "path payload [''user'', ''id''] = Inr uid"
    and rn: "path payload [''user'', ''real_name''] = Inr real_name"
    and em: "path payload [''user'', ''profile'', ''email''] = Inr email"
  obtains kvs where "payload = Obj kvs" and "done_args payload =
     Inr [Null, Obj (put (put (put (put kvs ''provider'' (Str ''Slack'')) ''id'' uid)
                     ''displayName'' real_name) ''email'' email)]"
proof -
  obtain kvs where p: "payload = Obj kvs"
    using ok by (rule truthy_prop_object) simp_all
  have "done_args (Obj kvs) =
     Inr [Null, Obj (put (put (put (put kvs ''provider'' (Str ''Slack'')) ''id'' uid)
                     ''displayName'' real_name) ''email'' email)]"
    using ok uid rn em unfolding p
    by (simp add: done_args_def lookup_put split: sum.splits)
  with p that show ?thesis by simp
qed

lemma done_args_no_user:
  assumes ok: "get_prop payload ''ok'' = Inr ok" "truthy ok"
    and uid: "path payload [''user'', ''id''] = Inl e"
  shows "done_args payload = Inl e"
proof -
  obtain kvs where p: "payload = Obj kvs"
    using ok by (rule truthy_prop_object) simp_all
  show ?thesis
    using ok uid unfolding p
    by (simp add: done_args_def lookup_put split: sum.splits)
qed

text \<open>A value one property of which can be read lets every property be read.\<close>

lemma get_prop_reads:
  assumes "get_prop v k = Inr x"
  obtains y where "get_prop v k' = Inr y"
  using assms by (cases v) simp_all

lemma done_args_no_user_profile:
  assumes ok: "get_prop payload ''ok'' = Inr ok" "truthy ok"
    and uid: "path payload [''user'', ''id''] = Inr uid"
    and em: "path payload [''user'', ''profile'', ''email''] = Inl e"
  shows "done_args payload = Inl e"
proof -
  obtain kvs where p: "payload = Obj kvs"
    using ok by (rule truthy_prop_object) simp_all
  from uid have "get_prop (lookup kvs ''user'') ''id'' = Inr uid"
    unfolding p by (simp split: sum.splits)
  then obtain real_name where "get_prop (lookup kvs ''user'') ''real_name'' = Inr real_name"
    by (rule get_prop_reads)
  then show ?thesis
    using ok uid em unfolding p
    by (simp add: done_args_def lookup_put split: sum.splits)
qed

text \<open>
  C4, as the code has it. Let the body parse to a payload with a truthy \<^verbatim>\<open>ok\<close>.
  \<^item> When the payload has a \<^verbatim>\<open>user\<close> with a \<^verbatim>\<open>profile\<close> (neither of them
    \<^verbatim>\<open>null\<close> or absent, so that \<^verbatim>\<open>user.id\<close>, \<^verbatim>\<open>user.real_name\<close> and
    \<^verbatim>\<open>user.profile.email\<close> can be read), \<^verbatim>\<open>userProfile\<close> calls the continuation with
    \<^verbatim>\<open>null\<close> and a profile whose \<^verbatim>\<open>provider\<close> is \<^verbatim>\<open>Slack\<close>, whose \<^verbatim>\<open>id\<close>,
    \<^verbatim>\<open>displayName\<close> and \<^verbatim>\<open>email\<close> are the payload's \<^verbatim>\<open>user.id\<close>,
    \<^verbatim>\<open>user.real_name\<close> and \<^verbatim>\<open>user.profile.email\<close>, and whose every other property
    is the payload's. A continuation that throws is called a second time, with its
    exception.
  \<^item> When \<^verbatim>\<open>user\<close> is \<^verbatim>\<open>null\<close> or absent, the read of \<^verbatim>\<open>user.id\<close> throws; when
    \<^verbatim>\<open>user\<close> is there and its \<^verbatim>\<open>profile\<close> is \<^verbatim>\<open>null\<close> or absent, the read of
    \<^verbatim>\<open>user.profile.email\<close> throws. Either way the continuation is called with that
    exception as its only argument: a failure, and no profile.
\<close>

theorem acknowledged_profile_normalized:
  assumes "profileUrl (self_params self) = Inr url"
    and "\<And>k s. oauth2_request ''GET'' url (Obj []) [] [] k s = k [err, body, res] (between s)"
    and "\<not> truthy err" and "json_parse (to_string body) = Inr payload"
    and "get_prop payload ''ok'' = Inr ok" and "truthy ok"
  shows "(\<forall>uid real_name email.
            path payload [''user'', ''id''] = Inr uid \<longrightarrow>
            path payload [''user'', ''real_name''] = Inr real_name \<longrightarrow>
            path payload [''user'', ''profile'', ''email''] = Inr email \<longrightarrow>
            (\<exists>profile.
               userProfile oauth2_request json_parse accessToken done self =
                 try_done done [Null, profile] (between self) \<and>
               get_prop profile ''provider'' = Inr (Str ''Slack'') \<and>
               get_prop profile ''id'' = Inr uid \<and>
               get_prop profile ''displayName'' = Inr real_name \<and>
               get_prop profile ''email'' = Inr email \<and>
               (\<forall>k. k \<notin> {''provider'', ''id'', ''displayName'', ''email''} \<longrightarrow>
                    get_prop profile k = get_prop payload k))) \<and>
         (\<forall>e. path payload [''user'', ''id''] = Inl e \<longrightarrow>
            userProfile oauth2_request json_parse accessToken done self =
              done [e] (between self)) \<and>
         (\<forall>uid e.
            path payload [''user'', ''id''] = Inr uid \<longrightarrow>
            path payload [''user'', ''profile'', ''email''] = Inl e \<longrightarrow>
            userProfile oauth2_request json_parse accessToken done self =
              done [e] (between self))"
proof (intro conjI allI impI)
  note call = userProfile_answered [where oauth2_request = oauth2_request and between = between, OF assms(1,2)] profile_callback_parsed [where json_parse = json_parse and body = body, OF assms(3,4)]
  {
    fix uid real_name email
    assume "path payload [''user'', ''id''] = Inr uid"
      and "path payload [''user'', ''real_name''] = Inr real_name"
      and "path payload [''user'', ''profile'', ''email''] = Inr email"
    with assms(5,6) obtain kvs where p: "payload = Obj kvs"
      and d: "done_args payload =
       Inr [Null, Obj (put (put (put (put kvs ''provider'' (Str ''Slack'')) ''id'' uid)
                       ''displayName'' real_name) ''email'' email)]"
      by (rule done_args_acknowledged)
    let ?profile = "Obj (put (put (put (put kvs ''provider'' (Str ''Slack'')) ''id'' uid)
                       ''displayName'' real_name) ''email'' email)"
    have "userProfile oauth2_request json_parse accessToken done self =
          try_done done [Null, ?profile] (between self)"
      using d by (simp add: call)
    moreover have "get_prop ?profile ''provider'' = Inr (Str ''Slack'')"
      and "get_prop ?profile ''id'' = Inr uid"
      and "get_prop ?profile ''displayName'' = Inr real_name"
      and "get_prop ?profile ''email'' = Inr email"
      by (simp_all add: lookup_put)
    moreover have "\<forall>k. k \<notin> {''provider'', ''id'', ''displayName'', ''email''} \<longrightarrow>
             get_prop ?profile k = get_prop payload k"
      by (simp add: lookup_put p)
    ultimately show "\<exists>profile.
               userProfile oauth2_request json_parse accessToken done self =
                 try_done done [Null, profile] (between self) \<and>
               get_prop profile ''provider'' = Inr (Str ''Slack'') \<and>
               get_prop profile ''id'' = Inr uid \<and>
               get_prop profile ''displayName'' = Inr real_name \<and>
               get_prop profile ''email'' = Inr email \<and>
               (\<forall>k. k \<notin> {''provider'', ''id'', ''displayName'', ''email''} \<longrightarrow>
                    get_prop profile k = get_prop payload k)"
      by blast
  next
    fix e
    assume "path payload [''user'', ''id''] = Inl e"
    with assms(5,6) have "done_args payload = Inl e"
      by (rule done_args_no_user)
    then show "userProfile oauth2_request json_parse accessToken done self =
        done [e] (between self)"
      by (simp add: call)
  next
    fix uid e
    assume "path payload [''user'', ''id''] = Inr uid"
      and "path payload [''user'', ''profile'', ''email''] = Inl e"
    with assms(5,6) have "done_args payload = Inl e"
      by (rule done_args_no_user_profile)
    then show "userProfile oauth2_request json_parse accessToken done self =
        done [e] (between self)"
      by (simp add: call)
  }
qed

theorem acknowledged_profile_normalized_witness:
  \<open>profileUrl (self_params world1) = Inr url1 \<and>
   (\<forall>k s. reply_with
        [Null,
         Str ''{"ok":true,"user":{"id":"U1","real_name":"Ada","profile":{"email":"a@x.com"}}}'',
         Undefined] ''GET'' url1 (Obj []) [] [] k s =
      k [Null,
         Str ''{"ok":true,"user":{"id":"U1","real_name":"Ada","profile":{"email":"a@x.com"}}}'',
         Undefined] (s\<lparr>requests := requests s @ [url1]\<rparr>)) \<and>
   \<not> truthy Null \<and>
   parse_examples (to_string (Str
      ''{"ok":true,"user":{"id":"U1","real_name":"Ada","profile":{"email":"a@x.com"}}}'')) =
     Inr (Obj [(''ok'', Bool True),
               (''user'', Obj [(''id'', Str ''U1''), (''real_name'', Str ''Ada''),
                               (''profile'', Obj [(''email'', Str ''a@x.com'')])])]) \<and>
   get_prop (Obj [(''ok'', Bool True),
               (''user'', Obj [(''id'', Str ''U1''), (''real_name'', Str ''Ada''),
                               (''profile'', Obj [(''email'', Str ''a@x.com'')])])]) ''ok'' =
     Inr (Bool True) \<and>
   truthy (Bool True) \<and>
   path (Obj [(''ok'', Bool True),
               (''user'', Obj [(''id'', Str ''U1''), (''real_name'', Str ''Ada''),
                               (''profile'', Obj [(''email'', Str ''a@x.com'')])])])
     [''user'', ''profile'', ''email''] = Inr (Str ''a@x.com'') \<and>
   userProfile
       (reply_with
          [Null,
           Str ''{"ok":true,"user":{"id":"U1","real_name":"Ada","profile":{"email":"a@x.com"}}}'',
           Undefined])
       parse_examples (Str ''user-1'') record_call world1 =
     (world1\<lparr>requests := [url1],
        delivered :=
          [[Null, Obj [(''ok'', Bool True),
                       (''user'', Obj [(''id'', Str ''U1''), (''real_name'', Str ''Ada''),
                                       (''profile'', Obj [(''email'', Str ''a@x.com'')])]),
                       (''provider'', Str ''Slack''), (''id'', Str ''U1''),
                       (''displayName'', Str ''Ada''), (''email'', Str ''a@x.com'')]]]\<rparr>,
      None)\<close>
proof -
  let ?body = \<open>Str
      ''{"ok":true,"user":{"id":"U1","real_name":"Ada","profile":{"email":"a@x.com"}}}''\<close>
  let ?payload = "Obj [(''ok'', Bool True),
               (''user'', Obj [(''id'', Str ''U1''), (''real_name'', Str ''Ada''),
                               (''profile'', Obj [(''email'', Str ''a@x.com'')])])]"
  have t: "\<And>k s. reply_with [Null, ?body, Undefined] ''GET'' url1 (Obj []) [] [] k s =
      k [Null, ?body, Undefined] (s\<lparr>requests := requests s @ [url1]\<rparr>)"
    by (rule reply_with_answers)
  have n: "\<not> truthy Null" by simp
  have p: "parse_examples (to_string ?body) = Inr ?payload"
    by (simp add: parse_examples_def)
  have ok: "get_prop ?payload ''ok'' = Inr (Bool True)" and tr: "truthy (Bool True)"
    by (simp_all add: lookup_def)
  have em: "path ?payload [''user'', ''profile'', ''email''] = Inr (Str ''a@x.com'')"
    by (simp add: lookup_def)
  from acknowledged_profile_normalized
    [where self = world1 and url = url1 and oauth2_request = "reply_with [Null, ?body, Undefined]"
      and err = Null and body = ?body and res = Undefined
      and between = "\<lambda>s. s\<lparr>requests := requests s @ [url1]\<rparr>"
      and json_parse = parse_examples and payload = ?payload and ok = "Bool True"
      and accessToken = "Str ''user-1''",
      of record_call, OF profileUrl_world1 t n p ok tr]
    profileUrl_world1 t p em
  show ?thesis
    by (simp add: userProfile_def get_def reply_with_def profile_callback_def arg_def
        done_args_def lookup_def try_done_def record_call_def world1_def world0_def)
qed

text \<open>
  C4 as stated fails on a payload with a true \<^verbatim>\<open>ok\<close> whose \<^verbatim>\<open>user\<close> has no
  \<^verbatim>\<open>profile\<close>: the read of \<^verbatim>\<open>profile.user.profile.email\<close> throws, and
  \<^verbatim>\<open>userProfile\<close> hands the continuation that \<^verbatim>\<open>TypeError\<close> and no profile.
\<close>

theorem missing_user_profile_fails:
  \<open>parse_examples (to_string (Str ''{"ok":true,"user":{"id":"U1","real_name":"Ada"}}'')) =
     Inr (Obj [(''ok'', Bool True),
               (''user'', Obj [(''id'', Str ''U1''), (''real_name'', Str ''Ada'')])]) \<and>
   userProfile
       (reply_with [Null, Str ''{"ok":true,"user":{"id":"U1","real_name":"Ada"}}'', Undefined])
       parse_examples (Str ''user-1'') record_call world1 =
     (world1\<lparr>requests := [url1], delivered := [[cannot_read Undefined ''email'']]\<rparr>, None)\<close>
  by (simp add: userProfile_def get_def profileUrl_def reply_with_def parse_examples_def
      profile_callback_def arg_def done_args_def record_call_def world1_def world0_def
      response1_def url1_def try_done_def lookup_def)

section \<open>Which extra parameters are returned\<close>

text \<open>
  C7. On an options object, \<^verbatim>\<open>authorizationParams\<close> returns an object \<open>m\<close> in which
  \<^item> \<^verbatim>\<open>team\<close> is a key exactly when the options' \<^verbatim>\<open>team\<close> or the stored one is set
    (truthy, as \<^verbatim>\<open>||\<close> and \<^verbatim>\<open>if\<close> test it), with the options' value when that is
    set and the stored one otherwise;
  \<^item> \<^verbatim>\<open>user_scope\<close> is a key exactly when the stored scope is set: a sequence of
    strings as the one string \<open>spaced\<close>, a string as it is;
  \<^item> there is no other key, and none twice.

  The function computes its result from the instance and the options and changes
  neither.
\<close>

theorem authorizationParams_keys:
  "\<exists>m. authorizationParams self (Obj options) = Inr (Obj m) \<and>
     (''team'' \<in> fst ` set m) = (truthy (lookup options ''team'') \<or> truthy (self_team self)) \<and>
     (truthy (lookup options ''team'') \<longrightarrow> lookup m ''team'' = lookup options ''team'') \<and>
     (\<not> truthy (lookup options ''team'') \<longrightarrow> truthy (self_team self) \<longrightarrow>
        lookup m ''team'' = self_team self) \<and>
     (''user_scope'' \<in> fst ` set m) = truthy (self_user_scope self) \<and>
     (\<forall>ws. self_user_scope self = Arr (map Str ws) \<longrightarrow>
        lookup m ''user_scope'' = Str (spaced ws)) \<and>
     (\<forall>s. self_user_scope self = Str s \<longrightarrow> s \<noteq> [] \<longrightarrow> lookup m ''user_scope'' = Str s) \<and>
     fst ` set m \<subseteq> {''team'', ''user_scope''} \<and> distinct (map fst m)"
  by (auto simp: authorizationParams_def js_or_def Let_def array_join_def join_spaced lookup_def
      o_def nullish_def)

theorem authorizationParams_keys_witness:
  "authorizationParams
     (world0\<lparr>self_team := Str ''T-config'', self_user_scope := Arr [Str ''a'', Str ''b'']\<rparr>)
     (Obj [(''team'', Str ''T-request'')]) =
   Inr (Obj [(''team'', Str ''T-request''), (''user_scope'', Str ''a b'')])"
  using authorizationParams_keys
    [of "world0\<lparr>self_team := Str ''T-config'', self_user_scope := Arr [Str ''a'', Str ''b'']\<rparr>"
      "[(''team'', Str ''T-request'')]"]
  by (simp add: authorizationParams_def js_or_def world0_def lookup_def array_join_def nullish_def)

section \<open>The scope of a strategy constructed without one\<close>

text \<open>
  The constructor hands the base constructor the options with the two URLs completed
  and nothing else added: a property the application did not give stays absent.
\<close>

lemma Strategy_options_untouched:
  assumes "Strategy OAuth2Strategy_call (Some options) verify = Inr self"
    and "k \<noteq> ''tokenURL''" and "k \<noteq> ''authorizationURL''"
  shows "get_prop (oauth2_options self) k = Inr (lookup options k)"
  using assms by (auto simp: Strategy_def Let_def lookup_put split: option.splits)

text \<open>
  C8. The comment above the constructor promises that \<^verbatim>\<open>scope\<close> defaults to
  \<^verbatim>\<open>['identity.basic', 'identity.email', 'identity.avatar', 'identity.team']\<close>. The
  constructor sets no such default: for the options of that comment's own example
  without their \<^verbatim>\<open>scope\<close>, the configuration handed on has no \<^verbatim>\<open>scope\<close> at all.
\<close>

theorem constructor_leaves_scope_unset:
  "Strategy accepts (Some [(''clientID'', Str ''123-456-789''),
       (''clientSecret'', Str ''shhh-its-a-secret''),
       (''callbackURL'', Str ''https://www.example.net/auth/slack/callback'')]) () =
   Inr \<lparr> self_team = Undefined, self_user_scope = Undefined, self_name = Str ''slack'',
         self_params = Undefined,
         oauth2_options = Obj [(''clientID'', Str ''123-456-789''),
           (''clientSecret'', Str ''shhh-its-a-secret''),
           (''callbackURL'', Str ''https://www.example.net/auth/slack/callback''),
           (''tokenURL'', Str ''https://slack.com/api/oauth.v2.access''),
           (''authorizationURL'', Str ''https://slack.com/oauth/v2/authorize'')] \<rparr> \<and>
   get_prop (Obj [(''clientID'', Str ''123-456-789''),
           (''clientSecret'', Str ''shhh-its-a-secret''),
           (''callbackURL'', Str ''https://www.example.net/auth/slack/callback''),
           (''tokenURL'', Str ''https://slack.com/api/oauth.v2.access''),
           (''authorizationURL'', Str ''https://slack.com/oauth/v2/authorize'')]) ''scope'' =
     Inr Undefined"
  by (simp add: Strategy_def accepts_def lookup_def js_or_def)

section \<open>Two login attempts on one instance\<close>

text \<open>
  C9. Attempt 1 completes its exchange (the response of user \<^verbatim>\<open>U1\<close>), then attempt 2
  completes its own (user \<^verbatim>\<open>U2\<close>), then the profile of attempt 1 is fetched, with the
  token attempt 1 was given. The one request that goes out asks for user \<^verbatim>\<open>U2\<close> with
  the token of attempt 2: \<^verbatim>\<open>userProfile\<close> reads the instance's \<^verbatim>\<open>params\<close>, which the
  second exchange has overwritten.
\<close>

theorem overlapping_attempts_read_latest_response:
  \<open>requests (fst (userProfile
       (reply_with [Null, Str ''{"ok":false,"error":"user_not_found"}'', Undefined])
       parse_examples (Str ''user-1'') record_call
       (fst (exchange_callback record_call [Null, Str ''bot-2'', Undefined, response2]
          (fst (exchange_callback record_call [Null, Str ''bot-1'', Undefined, response1]
             world0))))))
   = [''https://slack.com/api/users.info?user=U2&token=bot-2'']\<close>
  by (simp add: userProfile_def profileUrl_def get_def reply_with_def exchange_callback_def arg_def
      response1_def response2_def record_call_def world0_def lookup_def profile_callback_def
      parse_examples_def done_args_def try_done_def Let_def)

section \<open>Failures that are handed on\<close>

text \<open>
  An exchange that completes with an error: the override calls the continuation with
  that error alone and stores nothing.
\<close>

theorem exchange_error_propagated:
  assumes "truthy err"
  shows "exchange_callback callback (err # rest) self = callback [err] self"
  using assms by (simp add: exchange_callback_def arg_def)

theorem exchange_error_propagated_witness:
  "truthy (Str ''invalid_code'') \<and>
   exchange_callback record_call [Str ''invalid_code''] world0 =
     (world0\<lparr>delivered := [[Str ''invalid_code'']]\<rparr>, None)"
  using exchange_error_propagated [of "Str ''invalid_code''" record_call "[]" world0]
  by (simp add: record_call_def world0_def)

text \<open>
  A profile request that fails in the transport: \<^verbatim>\<open>userProfile\<close> calls the
  continuation with the transport's error alone, and the body is not parsed.
\<close>

theorem transport_failure_delivered:
  assumes "profileUrl (self_params self) = Inr url"
    and "\<And>k s. oauth2_request ''GET'' url (Obj []) [] [] k s = k (err # rest) (between s)"
    and "truthy err"
  shows "userProfile oauth2_request json_parse accessToken done self = done [err] (between self)"
  using assms by (simp add: userProfile_def get_def profile_callback_def arg_def)

theorem transport_failure_delivered_witness:
  "profileUrl (self_params world1) = Inr url1 \<and>
   truthy (Obj [(''statusCode'', Num ''500'')]) \<and>
   userProfile (reply_with [Obj [(''statusCode'', Num ''500'')], Str ''<html>'', Undefined])
       parse_examples (Str ''user-1'') record_call world1 =
     (world1\<lparr>requests := [url1], delivered := [[Obj [(''statusCode'', Num ''500'')]]]\<rparr>, None)"
proof -
  have t: "\<And>k s. reply_with [Obj [(''statusCode'', Num ''500'')], Str ''<html>'', Undefined]
        ''GET'' url1 (Obj []) [] [] k s =
      k (Obj [(''statusCode'', Num ''500'')] # [Str ''<html>'', Undefined])
        (s\<lparr>requests := requests s @ [url1]\<rparr>)"
    by (simp add: reply_with_def)
  have e: "truthy (Obj [(''statusCode'', Num ''500'')])" by simp
  from transport_failure_delivered
    [where self = world1 and url = url1
      and oauth2_request =
        "reply_with [Obj [(''statusCode'', Num ''500'')], Str ''<html>'', Undefined]"
      and err = "Obj [(''statusCode'', Num ''500'')]" and rest = "[Str ''<html>'', Undefined]"
      and between = "\<lambda>s. s\<lparr>requests := requests s @ [url1]\<rparr>"
      and json_parse = parse_examples and accessToken = "Str ''user-1''",
      of record_call, OF profileUrl_world1 t e]
    profileUrl_world1
  show ?thesis by (simp add: record_call_def world1_def world0_def)
qed


section \<open>The provider's endpoints\<close>

text \<open>
  The constructor hands on the token URL and the authorization URL of the options when
  they are set, and Slack's \<^verbatim>\<open>oauth.v2.access\<close> and \<^verbatim>\<open>v2/authorize\<close> otherwise.
\<close>

theorem constructor_completes_urls:
  assumes "Strategy OAuth2Strategy_call options verify = Inr self"
  shows "get_prop (oauth2_options self) ''tokenURL'' =
           Inr (js_or (lookup (case options of None \<Rightarrow> [] | Some kvs \<Rightarrow> kvs) ''tokenURL'')
                  (Str ''https://slack.com/api/oauth.v2.access'')) \<and>
         get_prop (oauth2_options self) ''authorizationURL'' =
           Inr (js_or
                  (lookup (case options of None \<Rightarrow> [] | Some kvs \<Rightarrow> kvs) ''authorizationURL'')
                  (Str ''https://slack.com/oauth/v2/authorize''))"
  using assms
  by (auto simp: Strategy_def Let_def lookup_put simp del: put.simps split: option.splits)

theorem constructor_completes_urls_witness:
  "Strategy accepts None () =
     Inr \<lparr> self_team = Undefined, self_user_scope = Undefined, self_name = Str ''slack'',
         self_params = Undefined,
         oauth2_options = Obj [(''tokenURL'', Str ''https://slack.com/api/oauth.v2.access''),
           (''authorizationURL'', Str ''https://slack.com/oauth/v2/authorize'')] \<rparr> \<and>
   get_prop (Obj [(''tokenURL'', Str ''https://slack.com/api/oauth.v2.access''),
           (''authorizationURL'', Str ''https://slack.com/oauth/v2/authorize'')]) ''tokenURL'' =
     Inr (Str ''https://slack.com/api/oauth.v2.access'')"
proof -
  have c: "Strategy accepts None () =
     Inr \<lparr> self_team = Undefined, self_user_scope = Undefined, self_name = Str ''slack'',
         self_params = Undefined,
         oauth2_options = Obj [(''tokenURL'', Str ''https://slack.com/api/oauth.v2.access''),
           (''authorizationURL'', Str ''https://slack.com/oauth/v2/authorize'')] \<rparr>"
    by (simp add: Strategy_def accepts_def lookup_def js_or_def)
  from constructor_completes_urls [OF c] c show ?thesis
    by (simp add: lookup_def js_or_def)
qed

end
